theory Spec2Isabelle
  imports Main
begin

section \<open>Values, configuration and effects\<close>

text \<open>
  The values that travel through the callbacks of \<^verbatim>\<open>index.js\<close>: \<^verbatim>\<open>undefined\<close>,
  \<^verbatim>\<open>null\<close>, strings, and the \<^verbatim>\<open>Error\<close> objects the HTTP library hands to a
  callback (carrying their message).
\<close>

datatype jsval = Undefined | Null | Str string | ErrObj string

text \<open>JavaScript truthiness, as used by \<^verbatim>\<open>if (err)\<close> and \<^verbatim>\<open>err || ...\<close>.\<close>

fun truthy :: "jsval \<Rightarrow> bool" where
  "truthy Undefined = False"
| "truthy Null = False"
| "truthy (Str s) = (s \<noteq> [])"
| "truthy (ErrObj m) = True"

text \<open>The conversion applied by string concatenation with \<^verbatim>\<open>+\<close>.\<close>

fun toString :: "jsval \<Rightarrow> string" where
  "toString Undefined = ''undefined''"
| "toString Null = ''null''"
| "toString (Str s) = s"
| "toString (ErrObj m) = (if m = [] then ''Error'' else ''Error: '' @ m)"

text \<open>\<^verbatim>\<open>a || b\<close>\<close>

definition js_or :: "jsval \<Rightarrow> jsval \<Rightarrow> jsval" where
  "js_or a b = (if truthy a then a else b)"

text \<open>
  \<^verbatim>\<open>String.prototype.trim\<close> on byte strings: the ASCII white space and line
  terminators (TAB, LF, VT, FF, CR, SPACE) are removed from both ends.
\<close>

definition isWhiteSpace :: "char \<Rightarrow> bool" where
  "isWhiteSpace c = (c \<in> set [CHR 0x09, CHR 0x0A, CHR 0x0B, CHR 0x0C, CHR 0x0D, CHR '' ''])"

definition trim :: "string \<Rightarrow> string" where
  "trim s = rev (dropWhile isWhiteSpace (rev (dropWhile isWhiteSpace s)))"

text \<open>
  The settings at the top of \<^verbatim>\<open>index.js\<close> (lines 13 to 36). They are edited by the
  user before the program runs, so they are a parameter of every operation. The variable
  \<^verbatim>\<open>method\<close> is the field \<open>cfg_method\<close>, its own name being reserved in theory text.
  The two coordinates of \<^verbatim>\<open>imageCenter\<close> are kept in their printed form, which is all
  the search string uses.
\<close>

record config =
  cfg_method :: string
  imageCenter :: "string \<times> string"
  email :: string
  baseURL :: string
  searchInterval :: nat
  recheckInterval :: nat

text \<open>The uncaught exception of a callback body; it ends the process.\<close>

datatype js_error = TypeError

text \<open>The form posted by \<^verbatim>\<open>publishScene\<close>.\<close>

record formData =
  fd_satellite :: string
  fd_sceneID :: jsval
  fd_email :: string
  fd_process :: string

text \<open>
  What a callback does to the outside world, in program order. A timer set by
  \<^verbatim>\<open>handleSceneStatus\<close> always runs \<^verbatim>\<open>getSceneStatus(sceneID, statusCallback)\<close>,
  so \<open>SetTimeout\<close> carries that scene identifier and the delay.
\<close>

datatype effect =
    ConsoleInfo string
  | ConsoleError "jsval list"
  | SetTimeout jsval nat
  | HttpGet string
  | HttpPost string formData

text \<open>
  The three arguments \<^verbatim>\<open>(err, res, body)\<close> the HTTP library passes to a request
  callback. The body of a response is taken in its parsed form (the documents of the
  provider API); \<open>statusCode\<close> is only read when \<open>resp_err\<close> is falsy.
\<close>

record 'b response =
  resp_err :: jsval
  statusCode :: nat
  body :: 'b

definition requestFailed :: "'b response \<Rightarrow> bool" where
  "requestFailed r = (truthy (resp_err r) \<or> statusCode r \<noteq> 200)"

section \<open>Provider client\<close>

subsection \<open>runSearchRequest\<close>

record search_hit =
  sceneID :: string

record search_data =
  search_results :: "search_hit list"

definition searchString :: "config \<Rightarrow> string" where
  "searchString cfg = ''/search/?search='' @
     ''upperLeftCornerLatitude:['' @ fst (imageCenter cfg) @ ''+TO+1000]+AND+'' @
     ''lowerRightCornerLatitude:[-1000+TO+'' @ fst (imageCenter cfg) @ '']+AND+'' @
     ''lowerLeftCornerLongitude:[-1000+TO+'' @ snd (imageCenter cfg) @ '']+AND+'' @
     ''upperRightCornerLongitude:['' @ snd (imageCenter cfg) @ ''+TO+1000]+AND+'' @
     ''acquisitionDate:[2015-05-01+TO+2016-05-01]''"

definition runSearchRequest :: "config \<Rightarrow> effect list" where
  "runSearchRequest cfg = [HttpGet (baseURL cfg @ searchString cfg)]"

text \<open>
  The body of the request callback of \<^verbatim>\<open>runSearchRequest\<close> (lines 67 to 77): the
  pair \<^verbatim>\<open>(err, sceneID)\<close> it passes to \<^verbatim>\<open>callback\<close>, or the exception it throws.
  \<^verbatim>\<open>data.results[0]\<close> is \<^verbatim>\<open>undefined\<close> on an empty array, and reading
  \<^verbatim>\<open>.sceneID\<close> of it throws.
\<close>

definition runSearchRequest_response ::
    "search_data response \<Rightarrow> js_error + (jsval \<times> jsval)" where
  "runSearchRequest_response r =
     (if truthy (resp_err r) \<or> statusCode r \<noteq> 200
      then Inr (js_or (resp_err r)
                  (Str ''Looks like we were unable to find any matches for your search.''),
                Null)
      else (case search_results (body r) of
              [] \<Rightarrow> Inl TypeError
            | h # _ \<Rightarrow> Inr (Null, Str (trim (sceneID h)))))"

subsection \<open>getSceneStatus\<close>

record scene =
  code :: string
  ready :: bool
  map_id :: jsval

record scenes_data =
  count :: int
  results :: "scene list"

text \<open>The four arguments \<^verbatim>\<open>(err, status, mapID, sceneID)\<close> of a status callback.\<close>

record cbargs =
  cb_err :: jsval
  cb_status :: jsval
  cb_mapID :: jsval
  cb_sceneID :: jsval

definition getSceneStatus :: "config \<Rightarrow> jsval \<Rightarrow> effect list" where
  "getSceneStatus cfg sid = [HttpGet (baseURL cfg @ ''/scenes?sceneID='' @ toString sid)]"

text \<open>
  The loop of lines 99 to 111, from index \<open>i\<close> on. The bound is \<^verbatim>\<open>data.count\<close>;
  \<^verbatim>\<open>data.results[i]\<close> past the end of the array is \<^verbatim>\<open>undefined\<close>, and reading
  \<^verbatim>\<open>.process_method\<close> of it throws.
\<close>

function scanScenes :: "config \<Rightarrow> jsval \<Rightarrow> scenes_data \<Rightarrow> nat \<Rightarrow> js_error + cbargs" where
  "scanScenes cfg sid d i =
     (if int i < count d then
        (if i < length (results d) then
           (if code (results d ! i) = cfg_method cfg then
              (if ready (results d ! i)
               then Inr \<lparr>cb_err = Null, cb_status = Str ''READY'',
                         cb_mapID = map_id (results d ! i), cb_sceneID = sid\<rparr>
               else Inr \<lparr>cb_err = Null, cb_status = Str ''REQUESTED'',
                         cb_mapID = Null, cb_sceneID = sid\<rparr>)
            else scanScenes cfg sid d (Suc i))
         else Inl TypeError)
      else Inr \<lparr>cb_err = Null, cb_status = Str ''NOT_YET_REQUESTED'',
                cb_mapID = Null, cb_sceneID = sid\<rparr>)"
  by pat_completeness auto
termination
  by (relation "measure (\<lambda>(cfg, sid, d, i). nat (count d - int i))") auto

text \<open>
  The body of the request callback of \<^verbatim>\<open>getSceneStatus\<close> (lines 91 to 112): the
  arguments it passes to \<^verbatim>\<open>callback\<close>, or the exception it throws.
\<close>

definition getSceneStatus_response ::
    "config \<Rightarrow> jsval \<Rightarrow> scenes_data response \<Rightarrow> js_error + cbargs" where
  "getSceneStatus_response cfg sid r =
     (if truthy (resp_err r) \<or> statusCode r \<noteq> 200
      then Inr \<lparr>cb_err = resp_err r, cb_status = Null, cb_mapID = Null, cb_sceneID = Null\<rparr>
      else scanScenes cfg sid (body r) 0)"

subsection \<open>publishScene\<close>

text \<open>
  \<^verbatim>\<open>publishScene\<close> has no \<^verbatim>\<open>return\<close>: its caller gets \<^verbatim>\<open>undefined\<close>, and the
  one thing it does is to post the form.
\<close>

definition publishScene :: "config \<Rightarrow> jsval \<Rightarrow> jsval \<times> effect list" where
  "publishScene cfg sid =
     (Undefined,
      [HttpPost (baseURL cfg @ ''/publish'')
         \<lparr>fd_satellite = ''l8'', fd_sceneID = sid, fd_email = email cfg,
          fd_process = cfg_method cfg\<rparr>])"

text \<open>
  The request callback of \<^verbatim>\<open>publishScene\<close> (lines 128 to 133), in the same shape as
  the other two request callbacks: what it does, or the exception it throws.
\<close>

definition publishScene_response :: "jsval response \<Rightarrow> js_error + effect list" where
  "publishScene_response r =
     (if truthy (resp_err r) \<or> statusCode r \<noteq> 200
      then Inr [ConsoleError [Str ''Received a non-200 status code.'', body r, resp_err r]]
      else Inr [ConsoleInfo ''Image successfully queued for publishing.''])"

section \<open>Scene reconciler\<close>

text \<open>
  The only mutable global is \<^verbatim>\<open>latestImage\<close>. A handler takes its current value and
  returns the new one together with the effects it caused.
\<close>

definition handleSceneStatus ::
    "config \<Rightarrow> jsval \<Rightarrow> jsval \<Rightarrow> jsval \<Rightarrow> jsval \<Rightarrow> jsval \<times> effect list" where
  "handleSceneStatus cfg sid status mapID latestImage =
     (let info = ConsoleInfo (''Just checked on the status of '' @ toString sid @
                              '' and it is '' @ toString status @ ''.'')
      in if status = Str ''READY'' then (mapID, [info])
         else if status = Str ''REQUESTED''
           then (latestImage, [info, SetTimeout sid (recheckInterval cfg)])
         else if status = Str ''NOT_YET_REQUESTED''
           then (latestImage,
                 info # snd (publishScene cfg sid) @ [SetTimeout sid (recheckInterval cfg)])
         else (latestImage, [info, ConsoleError [Str ''Unhandled scene status'']]))"

definition statusCallback :: "config \<Rightarrow> cbargs \<Rightarrow> jsval \<Rightarrow> jsval \<times> effect list" where
  "statusCallback cfg a latestImage =
     (if truthy (cb_err a) then (latestImage, [ConsoleError [cb_err a]])
      else handleSceneStatus cfg (cb_sceneID a) (cb_status a) (cb_mapID a) latestImage)"

text \<open>
  The anonymous callback \<^verbatim>\<open>handleSearchResult\<close> gives to \<^verbatim>\<open>getSceneStatus\<close> (lines
  194 to 200): it uses the scene identifier of the search, not the fourth argument.
\<close>

definition searchStatusCallback ::
    "config \<Rightarrow> jsval \<Rightarrow> cbargs \<Rightarrow> jsval \<Rightarrow> jsval \<times> effect list" where
  "searchStatusCallback cfg sid a latestImage =
     (if truthy (cb_err a) then (latestImage, [ConsoleError [cb_err a]])
      else handleSceneStatus cfg sid (cb_status a) (cb_mapID a) latestImage)"

definition handleSearchResult :: "config \<Rightarrow> jsval \<times> jsval \<Rightarrow> effect list" where
  "handleSearchResult cfg a =
     (if truthy (fst a) then [ConsoleError [fst a]] else getSceneStatus cfg (snd a))"

section \<open>Driver: polling chains and search cycles\<close>

text \<open>
  \<^verbatim>\<open>getSceneStatus\<close> is called with one of two callbacks: \<^verbatim>\<open>statusCallback\<close> (from
  a timer) or the anonymous function of \<^verbatim>\<open>handleSearchResult\<close>, which closes over the
  scene identifier of the search.
\<close>

datatype status_cb = StatusCallback | SearchCallback jsval

fun runCallback :: "config \<Rightarrow> status_cb \<Rightarrow> cbargs \<Rightarrow> jsval \<Rightarrow> jsval \<times> effect list" where
  "runCallback cfg StatusCallback a latestImage = statusCallback cfg a latestImage"
| "runCallback cfg (SearchCallback sid) a latestImage =
     searchStatusCallback cfg sid a latestImage"

text \<open>The timers among the effects of a callback: scene identifier and delay.\<close>

fun armedTimers :: "effect list \<Rightarrow> (jsval \<times> nat) list" where
  "armedTimers [] = []"
| "armedTimers (SetTimeout sid d # es) = (sid, d) # armedTimers es"
| "armedTimers (e # es) = armedTimers es"

text \<open>
  One polling chain: a call of \<^verbatim>\<open>getSceneStatus\<close> and everything that follows from
  it through the timers, run against the provider's successive answers \<open>rs\<close>. Each
  answer is handled by the callback; when the callback armed a timer, the timer fires
  and the next call (always with \<^verbatim>\<open>statusCallback\<close>) meets the next answer. The chain
  is over when a callback arms no timer; with no answer left the last request stays
  open. The result is the final \<^verbatim>\<open>latestImage\<close> and the effects in order, or the
  uncaught exception that ended the process.
\<close>

fun pollChain ::
    "config \<Rightarrow> status_cb \<Rightarrow> jsval \<Rightarrow> scenes_data response list \<Rightarrow> jsval
      \<Rightarrow> js_error + (jsval \<times> effect list)" where
  "pollChain cfg cb sid [] latestImage = Inr (latestImage, getSceneStatus cfg sid)"
| "pollChain cfg cb sid (r # rs) latestImage =
     (case getSceneStatus_response cfg sid r of
        Inl e \<Rightarrow> Inl e
      | Inr a \<Rightarrow>
          (case runCallback cfg cb a latestImage of
             (img, effs) \<Rightarrow>
               (case armedTimers effs of
                  [] \<Rightarrow> Inr (img, getSceneStatus cfg sid @ effs)
                | (sid', d) # _ \<Rightarrow>
                    (case pollChain cfg StatusCallback sid' rs img of
                       Inl e \<Rightarrow> Inl e
                     | Inr (img', effs') \<Rightarrow>
                         Inr (img', getSceneStatus cfg sid @ effs @ effs')))))"

text \<open>One status check from a timer: the answer \<open>r\<close> handled by \<^verbatim>\<open>statusCallback\<close>.\<close>

definition statusCheck ::
    "config \<Rightarrow> jsval \<Rightarrow> scenes_data response \<Rightarrow> jsval
      \<Rightarrow> js_error + (jsval \<times> effect list)" where
  "statusCheck cfg sid r latestImage =
     (case getSceneStatus_response cfg sid r of
        Inl e \<Rightarrow> Inl e
      | Inr a \<Rightarrow> Inr (statusCallback cfg a latestImage))"

text \<open>\<open>n\<close> status checks in succession against the same answer; the final \<^verbatim>\<open>latestImage\<close>.\<close>

fun repeatCheck ::
    "config \<Rightarrow> jsval \<Rightarrow> scenes_data response \<Rightarrow> nat \<Rightarrow> jsval \<Rightarrow> js_error + jsval" where
  "repeatCheck cfg sid r 0 latestImage = Inr latestImage"
| "repeatCheck cfg sid r (Suc n) latestImage =
     (case statusCheck cfg sid r latestImage of
        Inl e \<Rightarrow> Inl e
      | Inr (img, effs) \<Rightarrow> repeatCheck cfg sid r n img)"

text \<open>
  One cycle of the driver (lines 221 to 224): \<^verbatim>\<open>runSearchRequest(handleSearchResult)\<close>
  against the search answer \<open>sr\<close>, then the polling chain it starts.
\<close>

definition searchCycle ::
    "config \<Rightarrow> search_data response \<Rightarrow> scenes_data response list \<Rightarrow> jsval
      \<Rightarrow> js_error + (jsval \<times> effect list)" where
  "searchCycle cfg sr rs latestImage =
     (case runSearchRequest_response sr of
        Inl e \<Rightarrow> Inl e
      | Inr a \<Rightarrow>
          (if truthy (fst a)
           then Inr (latestImage, runSearchRequest cfg @ handleSearchResult cfg a)
           else (case pollChain cfg (SearchCallback (snd a)) (snd a) rs latestImage of
                   Inl e \<Rightarrow> Inl e
                 | Inr (img, effs) \<Rightarrow> Inr (img, runSearchRequest cfg @ effs))))"

section \<open>Specification vocabulary\<close>

text \<open>A successful answer carrying the document \<open>d\<close>.\<close>

definition okResponse :: "'b \<Rightarrow> 'b response" where
  "okResponse d = \<lparr>resp_err = Null, statusCode = 200, body = d\<rparr>"

text \<open>The pipeline listing of the entries \<open>es\<close>, with \<^verbatim>\<open>count\<close> their number.\<close>

definition listing :: "scene list \<Rightarrow> scenes_data" where
  "listing es = \<lparr>count = int (length es), results = es\<rparr>"

definition matchesMethod :: "config \<Rightarrow> scene \<Rightarrow> bool" where
  "matchesMethod cfg e = (code e = cfg_method cfg)"

text \<open>
  The status table of the specification, applied to the selected entry (if any):
  \<open>Ready\<close> with the result reference when it is complete, \<open>Requested\<close> when it is not,
  \<open>NotYetRequested\<close> when there is none.
\<close>

definition entryStatus :: "jsval \<Rightarrow> scene option \<Rightarrow> cbargs" where
  "entryStatus sid m =
     (case m of
        None \<Rightarrow> \<lparr>cb_err = Null, cb_status = Str ''NOT_YET_REQUESTED'',
                  cb_mapID = Null, cb_sceneID = sid\<rparr>
      | Some e \<Rightarrow>
          (if ready e
           then \<lparr>cb_err = Null, cb_status = Str ''READY'', cb_mapID = map_id e,
                 cb_sceneID = sid\<rparr>
           else \<lparr>cb_err = Null, cb_status = Str ''REQUESTED'', cb_mapID = Null,
                 cb_sceneID = sid\<rparr>))"

text \<open>Some entry of the listing has the configured method and is marked complete.\<close>

definition hasCompleteEntry :: "config \<Rightarrow> scene list \<Rightarrow> bool" where
  "hasCompleteEntry cfg es = list_ex (\<lambda>e. matchesMethod cfg e \<and> ready e) es"

text \<open>The first entry of the whole \<^verbatim>\<open>results\<close> array with the configured method.\<close>

definition firstMatch :: "config \<Rightarrow> scenes_data \<Rightarrow> scene option" where
  "firstMatch cfg d = find (matchesMethod cfg) (results d)"

text \<open>An answer on which a status check observes \<open>Ready\<close>.\<close>

definition observesReady :: "config \<Rightarrow> scenes_data response \<Rightarrow> bool" where
  "observesReady cfg r =
     (case getSceneStatus_response cfg Null r of
        Inl e \<Rightarrow> False
      | Inr a \<Rightarrow> \<not> truthy (cb_err a) \<and> cb_status a = Str ''READY'')"

text \<open>The settings of \<^verbatim>\<open>index.js\<close>, with an address filled in.\<close>

definition exampleConfig :: config where
  "exampleConfig =
     \<lparr>cfg_method = ''trueColor'', imageCenter = (''37.7577'', ''-122.4376''),
      email = ''user@example.com'', baseURL = ''https://api.astrodigital.com/v1'',
      searchInterval = 24 * 60 * 60 * 1000, recheckInterval = 10 * 60 * 1000\<rparr>"

section \<open>The scan of the pipeline listing\<close>

lemma scanScenes_find:
  "count d \<le> int (length (results d)) \<Longrightarrow>
   scanScenes cfg sid d i =
     Inr (entryStatus sid
            (find (matchesMethod cfg) (drop i (take (nat (count d)) (results d)))))"
proof (induction cfg sid d i rule: scanScenes.induct)
  case (1 cfg sid d i)
  show ?case
  proof (cases "int i < count d")
    case False
    then have "drop i (take (nat (count d)) (results d)) = []" by simp
    with False show ?thesis
      by (subst scanScenes.simps) (simp add: entryStatus_def)
  next
    case True
    with "1.prems" have il: "i < length (results d)" by linarith
    from True il have "i < length (take (nat (count d)) (results d))" by simp
    then have dr: "drop i (take (nat (count d)) (results d)) =
        (results d ! i) # drop (Suc i) (take (nat (count d)) (results d))"
      using True by (simp add: Cons_nth_drop_Suc [symmetric])
    show ?thesis
    proof (cases "code (results d ! i) = cfg_method cfg")
      case m: True
      with True il dr show ?thesis
        by (subst scanScenes.simps) (simp add: entryStatus_def matchesMethod_def [abs_def])
    next
      case m: False
      from "1.IH" [OF True il m "1.prems"] True il m dr show ?thesis
        by (subst scanScenes.simps) (simp add: matchesMethod_def [abs_def])
    qed
  qed
qed

lemma scanScenes_throws:
  "int (length (results d)) < count d \<Longrightarrow> i \<le> length (results d) \<Longrightarrow>
   find (matchesMethod cfg) (drop i (results d)) = None \<Longrightarrow>
   scanScenes cfg sid d i = Inl TypeError"
proof (induction cfg sid d i rule: scanScenes.induct)
  case (1 cfg sid d i)
  show ?case
  proof (cases "i < length (results d)")
    case False
    with "1.prems" show ?thesis by (subst scanScenes.simps) simp
  next
    case True
    then have dr: "drop i (results d) = (results d ! i) # drop (Suc i) (results d)"
      by (simp add: Cons_nth_drop_Suc)
    with "1.prems" have m: "code (results d ! i) \<noteq> cfg_method cfg"
      and rest: "find (matchesMethod cfg) (drop (Suc i) (results d)) = None"
      by (auto simp: matchesMethod_def [abs_def] split: if_splits)
    from "1.prems" True have c: "int i < count d" by linarith
    from True have "Suc i \<le> length (results d)" by simp
    from "1.IH" [OF c True m "1.prems"(1) this rest] c True m show ?thesis
      by (subst scanScenes.simps) simp
  qed
qed

lemma getSceneStatus_response_ok:
  "getSceneStatus_response cfg sid (okResponse d) = scanScenes cfg sid d 0"
  by (simp add: getSceneStatus_response_def okResponse_def)

section \<open>Provider client: what a status check returns\<close>

text \<open>
  Claim C1, as amended. For every listing of pipeline entries (answered with success, its
  \<^verbatim>\<open>count\<close> being the number of entries), \<^verbatim>\<open>getSceneStatus\<close> calls back with exactly one
  of the three statuses, and the FIRST entry in list order whose method code equals the
  configured method decides which: \<open>READY\<close> with that entry's \<^verbatim>\<open>map_id\<close> when it is marked
  complete, \<open>REQUESTED\<close> when it is not, \<open>NOT_YET_REQUESTED\<close> when no entry has the method.
  No error and no exception is possible on such an answer.
\<close>

theorem getStatus_first_match:
  "getSceneStatus_response cfg sid (okResponse (listing es)) =
     Inr (entryStatus sid (find (matchesMethod cfg) es))
   \<and> cb_status (entryStatus sid (find (matchesMethod cfg) es))
       \<in> {Str ''NOT_YET_REQUESTED'', Str ''REQUESTED'', Str ''READY''}"
proof -
  have "count (listing es) \<le> int (length (results (listing es)))"
    by (simp add: listing_def)
  from scanScenes_find [OF this, of cfg sid 0]
  have "getSceneStatus_response cfg sid (okResponse (listing es)) =
     Inr (entryStatus sid (find (matchesMethod cfg) es))"
    by (simp add: getSceneStatus_response_ok) (simp add: listing_def)
  moreover have "cb_status (entryStatus sid (find (matchesMethod cfg) es))
       \<in> {Str ''NOT_YET_REQUESTED'', Str ''REQUESTED'', Str ''READY''}"
    by (simp add: entryStatus_def split: option.split)
  ultimately show ?thesis by simp
qed

text \<open>
  Claim C1 as it is written fails: it promises \<open>READY\<close> whenever an entry with the
  configured method is marked complete. With two entries of that method, the first one
  incomplete and the second one complete, the loop returns at the first and the status is
  \<open>REQUESTED\<close>.
\<close>

theorem getStatus_complete_entry_counterexample:
  "hasCompleteEntry exampleConfig
     [\<lparr>code = ''trueColor'', ready = False, map_id = Null\<rparr>,
      \<lparr>code = ''trueColor'', ready = True, map_id = Str ''abc123''\<rparr>]
   \<and> getSceneStatus_response exampleConfig (Str ''LC80100102015050LGN00'')
       (okResponse (listing
          [\<lparr>code = ''trueColor'', ready = False, map_id = Null\<rparr>,
           \<lparr>code = ''trueColor'', ready = True, map_id = Str ''abc123''\<rparr>]))
     = Inr \<lparr>cb_err = Null, cb_status = Str ''REQUESTED'', cb_mapID = Null,
            cb_sceneID = Str ''LC80100102015050LGN00''\<rparr>"
  by (simp add: hasCompleteEntry_def matchesMethod_def exampleConfig_def
      getSceneStatus_response_def okResponse_def listing_def)

text \<open>
  Claim C10, as amended. The loop bound is the \<^verbatim>\<open>count\<close> field, not the length of
  \<^verbatim>\<open>results\<close>. When \<^verbatim>\<open>count\<close> is at most the length, the scan never throws and the
  first entry with the configured method AMONG THE FIRST \<^verbatim>\<open>count\<close> ENTRIES decides the
  status; an entry at an index from \<^verbatim>\<open>count\<close> on is never read, and when none of the first
  \<^verbatim>\<open>count\<close> entries has the method the status is \<open>NOT_YET_REQUESTED\<close>. When
  \<^verbatim>\<open>count\<close> exceeds the length and no entry has the method, the read past the end throws
  \<^verbatim>\<open>TypeError\<close> and no status is returned.
\<close>

theorem scan_bounded_by_count:
  "(count d \<le> int (length (results d)) \<longrightarrow>
      getSceneStatus_response cfg sid (okResponse d) =
        Inr (entryStatus sid (find (matchesMethod cfg) (take (nat (count d)) (results d)))))
   \<and> (int (length (results d)) < count d \<and> firstMatch cfg d = None \<longrightarrow>
      getSceneStatus_response cfg sid (okResponse d) = Inl TypeError)
   \<and> (\<exists>d'. int (length (results d')) < count d'
          \<and> getSceneStatus_response cfg sid (okResponse d') = Inl TypeError)"
proof (intro conjI impI)
  assume "count d \<le> int (length (results d))"
  from scanScenes_find [OF this, of cfg sid 0]
  show "getSceneStatus_response cfg sid (okResponse d) =
        Inr (entryStatus sid (find (matchesMethod cfg) (take (nat (count d)) (results d))))"
    by (simp add: getSceneStatus_response_ok)
next
  assume a: "int (length (results d)) < count d \<and> firstMatch cfg d = None"
  then have "find (matchesMethod cfg) (drop 0 (results d)) = None"
    by (simp add: firstMatch_def)
  with a scanScenes_throws [of d 0 cfg sid]
  show "getSceneStatus_response cfg sid (okResponse d) = Inl TypeError"
    by (simp add: getSceneStatus_response_ok)
next
  have "int (length (results \<lparr>count = 1, results = []\<rparr>)) < count \<lparr>count = 1, results = []\<rparr>
      \<and> getSceneStatus_response cfg sid (okResponse \<lparr>count = 1, results = []\<rparr>) = Inl TypeError"
    by (simp add: getSceneStatus_response_ok)
  then show "\<exists>d'. int (length (results d')) < count d'
          \<and> getSceneStatus_response cfg sid (okResponse d') = Inl TypeError"
    by blast
qed

theorem scan_bounded_by_count_witness:
  "count \<lparr>count = 1, results = [\<lparr>code = ''ndvi'', ready = True, map_id = Str ''x1''\<rparr>,
                                 \<lparr>code = ''trueColor'', ready = True, map_id = Str ''abc123''\<rparr>]\<rparr>
     \<le> int (length (results \<lparr>count = 1, results =
            [\<lparr>code = ''ndvi'', ready = True, map_id = Str ''x1''\<rparr>,
             \<lparr>code = ''trueColor'', ready = True, map_id = Str ''abc123''\<rparr>]\<rparr>))
   \<and> getSceneStatus_response exampleConfig (Str ''LC8'')
        (okResponse \<lparr>count = 1, results =
            [\<lparr>code = ''ndvi'', ready = True, map_id = Str ''x1''\<rparr>,
             \<lparr>code = ''trueColor'', ready = True, map_id = Str ''abc123''\<rparr>]\<rparr>)
      = Inr \<lparr>cb_err = Null, cb_status = Str ''NOT_YET_REQUESTED'', cb_mapID = Null,
             cb_sceneID = Str ''LC8''\<rparr>
   \<and> int (length (results \<lparr>count = 2, results =
            [\<lparr>code = ''ndvi'', ready = True, map_id = Str ''x1''\<rparr>]\<rparr>))
       < count \<lparr>count = 2, results = [\<lparr>code = ''ndvi'', ready = True, map_id = Str ''x1''\<rparr>]\<rparr>
   \<and> firstMatch exampleConfig
        \<lparr>count = 2, results = [\<lparr>code = ''ndvi'', ready = True, map_id = Str ''x1''\<rparr>]\<rparr> = None
   \<and> getSceneStatus_response exampleConfig (Str ''LC8'')
        (okResponse \<lparr>count = 2, results =
            [\<lparr>code = ''ndvi'', ready = True, map_id = Str ''x1''\<rparr>]\<rparr>) = Inl TypeError"
  using scan_bounded_by_count [of "\<lparr>count = 1, results =
            [\<lparr>code = ''ndvi'', ready = True, map_id = Str ''x1''\<rparr>,
             \<lparr>code = ''trueColor'', ready = True, map_id = Str ''abc123''\<rparr>]\<rparr>"
          exampleConfig "Str ''LC8''"]
        scan_bounded_by_count [of "\<lparr>count = 2, results =
            [\<lparr>code = ''ndvi'', ready = True, map_id = Str ''x1''\<rparr>]\<rparr>"
          exampleConfig "Str ''LC8''"]
  by (simp add: firstMatch_def matchesMethod_def exampleConfig_def entryStatus_def)

text \<open>
  Claim C10 as it is written fails in its first half: with \<^verbatim>\<open>count\<close> 0 and one complete
  entry of the configured method in \<^verbatim>\<open>results\<close>, \<^verbatim>\<open>count\<close> is at most the length and
  the first matching entry would give \<open>READY\<close>, but the loop body never runs and the status
  is \<open>NOT_YET_REQUESTED\<close>.
\<close>

theorem scan_first_match_counterexample:
  "count \<lparr>count = 0, results = [\<lparr>code = ''trueColor'', ready = True, map_id = Str ''abc123''\<rparr>]\<rparr>
     \<le> int (length (results \<lparr>count = 0, results =
            [\<lparr>code = ''trueColor'', ready = True, map_id = Str ''abc123''\<rparr>]\<rparr>))
   \<and> firstMatch exampleConfig
        \<lparr>count = 0, results = [\<lparr>code = ''trueColor'', ready = True, map_id = Str ''abc123''\<rparr>]\<rparr>
      = Some \<lparr>code = ''trueColor'', ready = True, map_id = Str ''abc123''\<rparr>
   \<and> getSceneStatus_response exampleConfig (Str ''LC8'')
        (okResponse \<lparr>count = 0, results =
            [\<lparr>code = ''trueColor'', ready = True, map_id = Str ''abc123''\<rparr>]\<rparr>)
      = Inr \<lparr>cb_err = Null, cb_status = Str ''NOT_YET_REQUESTED'', cb_mapID = Null,
             cb_sceneID = Str ''LC8''\<rparr>"
  by (simp add: firstMatch_def matchesMethod_def exampleConfig_def
      getSceneStatus_response_def okResponse_def)

section \<open>Provider client: failures\<close>

text \<open>
  A failed search request (an error of the transport, or a status code other than 200) is
  passed to the callback as an error, logged by \<^verbatim>\<open>handleSearchResult\<close>, and ends the
  cycle: \<^verbatim>\<open>latestImage\<close> is untouched and nothing but the search request and the log line
  happens.
\<close>

lemma search_failure_reported:
  "requestFailed r \<Longrightarrow>
   runSearchRequest_response r =
     Inr (if truthy (resp_err r) then resp_err r
          else Str ''Looks like we were unable to find any matches for your search.'', Null)
   \<and> searchCycle cfg r rs latestImage =
       Inr (latestImage, runSearchRequest cfg @
         [ConsoleError [if truthy (resp_err r) then resp_err r
          else Str ''Looks like we were unable to find any matches for your search.'']])"
  by (auto simp add: requestFailed_def runSearchRequest_response_def searchCycle_def js_or_def
      handleSearchResult_def)

text \<open>
  Claim C2 at the input where the code departs from it: a successful search answer with an
  empty \<^verbatim>\<open>results\<close> array. The callback body throws \<^verbatim>\<open>TypeError\<close> at
  \<^verbatim>\<open>data.results[0].sceneID\<close>; \<^verbatim>\<open>handleSearchResult\<close> is never called, so no error is
  passed to it and none is logged by it, and the cycle ends with the uncaught exception.
\<close>

theorem search_zero_results_throws:
  "runSearchRequest_response (okResponse \<lparr>search_results = []\<rparr>) = Inl TypeError
   \<and> searchCycle cfg (okResponse \<lparr>search_results = []\<rparr>) rs latestImage = Inl TypeError"
  by (simp add: runSearchRequest_response_def searchCycle_def okResponse_def)

text \<open>
  A status check that fails in the transport is reported to the callback as an error, which
  logs it; nothing else happens.
\<close>

lemma status_network_failure_reported:
  "truthy (resp_err r) \<Longrightarrow>
   statusCheck cfg sid r latestImage = Inr (latestImage, [ConsoleError [resp_err r]])"
  by (simp add: getSceneStatus_response_def statusCheck_def statusCallback_def)

text \<open>
  Claim C3 at the input where the code departs from it: an answer with status code 404 and
  no transport error. \<^verbatim>\<open>getSceneStatus\<close> calls back with \<^verbatim>\<open>err\<close> still \<^verbatim>\<open>null\<close>, so
  \<^verbatim>\<open>statusCallback\<close> sees no error and hands the status \<^verbatim>\<open>null\<close> to
  \<^verbatim>\<open>handleSceneStatus\<close>, which takes its default branch.
\<close>

theorem status_non200_reaches_state_machine:
  "getSceneStatus_response cfg sid \<lparr>resp_err = Null, statusCode = 404, body = d\<rparr> =
     Inr \<lparr>cb_err = Null, cb_status = Null, cb_mapID = Null, cb_sceneID = Null\<rparr>
   \<and> statusCheck cfg sid \<lparr>resp_err = Null, statusCode = 404, body = d\<rparr> latestImage =
     Inr (latestImage,
          [ConsoleInfo ''Just checked on the status of null and it is null.'',
           ConsoleError [Str ''Unhandled scene status'']])"
  by (simp add: getSceneStatus_response_def statusCheck_def statusCallback_def
      handleSceneStatus_def)

text \<open>
  Claim C8. \<^verbatim>\<open>publishScene\<close> returns \<^verbatim>\<open>undefined\<close> to its caller. Whatever the outcome
  of the request, its callback throws nothing and does one thing: it writes one line to the
  console, an error line carrying the body and the error when the request failed (transport
  error or a status code other than 200).
\<close>

theorem publish_failure_swallowed:
  "fst (publishScene cfg sid) = Undefined
   \<and> publishScene_response r =
       Inr [if requestFailed r
            then ConsoleError [Str ''Received a non-200 status code.'', body r, resp_err r]
            else ConsoleInfo ''Image successfully queued for publishing.'']
   \<and> publishScene_response r \<noteq> Inl e"
  by (simp add: publishScene_def publishScene_response_def requestFailed_def)

section \<open>Scene reconciler\<close>

text \<open>
  Claim C4. Handling a status leaves \<^verbatim>\<open>latestImage\<close> as it was, except on the \<open>READY\<close>
  branch, where it becomes the delivered \<^verbatim>\<open>mapID\<close>. The same holds through the two
  callbacks, whose error branch (a truthy \<^verbatim>\<open>err\<close>) never writes.
\<close>

theorem latestImage_written_only_on_ready:
  "fst (handleSceneStatus cfg sid status mapID latestImage) =
     (if status = Str ''READY'' then mapID else latestImage)
   \<and> fst (statusCallback cfg a latestImage) =
     (if \<not> truthy (cb_err a) \<and> cb_status a = Str ''READY'' then cb_mapID a else latestImage)
   \<and> fst (searchStatusCallback cfg sid' a latestImage) =
     (if \<not> truthy (cb_err a) \<and> cb_status a = Str ''READY'' then cb_mapID a else latestImage)"
  by (simp add: handleSceneStatus_def statusCallback_def searchStatusCallback_def Let_def)

text \<open>
  Claim C6. A status outside \<open>READY\<close>, \<open>REQUESTED\<close>, \<open>NOT_YET_REQUESTED\<close> is handled
  without an exception: \<^verbatim>\<open>latestImage\<close> is unchanged and the only effects are the two
  console lines, so no timer is armed, no request is sent, and the chain stops.
\<close>

theorem unknown_status_stops_chain:
  "status \<notin> {Str ''READY'', Str ''REQUESTED'', Str ''NOT_YET_REQUESTED''} \<Longrightarrow>
   handleSceneStatus cfg sid status mapID latestImage =
     (latestImage,
      [ConsoleInfo (''Just checked on the status of '' @ toString sid @
                    '' and it is '' @ toString status @ ''.''),
       ConsoleError [Str ''Unhandled scene status'']])"
  by (simp add: handleSceneStatus_def)

theorem unknown_status_stops_chain_witness:
  "Str ''FAILED'' \<notin> {Str ''READY'', Str ''REQUESTED'', Str ''NOT_YET_REQUESTED''}
   \<and> handleSceneStatus exampleConfig (Str ''LC8'') (Str ''FAILED'') Null (Str ''old'') =
     (Str ''old'',
      [ConsoleInfo ''Just checked on the status of LC8 and it is FAILED.'',
       ConsoleError [Str ''Unhandled scene status'']])"
  using unknown_status_stops_chain
    [of "Str ''FAILED''" exampleConfig "Str ''LC8''" Null "Str ''old''"]
  by simp

section \<open>Repeated status checks\<close>

lemma statusCheck_stable:
  "statusCheck cfg sid r latestImage = Inr (img, effs) \<Longrightarrow>
   \<exists>effs'. statusCheck cfg sid r img = Inr (img, effs')"
  by (auto simp add: statusCheck_def statusCallback_def handleSceneStatus_def Let_def
      split: sum.splits if_splits)

lemma repeatCheck_fixed:
  "statusCheck cfg sid r img = Inr (img, effs) \<Longrightarrow> repeatCheck cfg sid r n img = Inr img"
  by (induction n) auto

text \<open>
  Claim C9. Against an unchanged answer of the provider, any number of status checks in
  succession (at least one) leaves in \<^verbatim>\<open>latestImage\<close> what a single check leaves there;
  when the check throws, so does every repetition.
\<close>

theorem repeated_checks_idempotent:
  "repeatCheck cfg sid r (Suc n) latestImage = repeatCheck cfg sid r (Suc 0) latestImage"
proof (cases "statusCheck cfg sid r latestImage")
  case (Inl e)
  then show ?thesis by simp
next
  case (Inr p)
  obtain img effs where p: "p = (img, effs)" by (cases p)
  with Inr statusCheck_stable obtain effs' where "statusCheck cfg sid r img = Inr (img, effs')"
    by blast
  from repeatCheck_fixed [OF this] Inr p show ?thesis by simp
qed

section \<open>Polling chains\<close>

text \<open>The status a check observes does not depend on the scene identifier it was asked for.\<close>

lemma scanScenes_sid:
  "scanScenes cfg sid d i = Inr a \<Longrightarrow>
   scanScenes cfg sid' d i = Inr (a\<lparr>cb_sceneID := sid'\<rparr>)"
proof (induction cfg sid d i rule: scanScenes.induct)
  case (1 cfg sid d i)
  show ?case
  proof (cases "int i < count d \<and> i < length (results d) \<and> code (results d ! i) \<noteq> cfg_method cfg")
    case True
    then have "scanScenes cfg sid d i = scanScenes cfg sid d (Suc i)"
      and s': "scanScenes cfg sid' d i = scanScenes cfg sid' d (Suc i)"
      by (subst scanScenes.simps, simp)+
    with "1.prems" have "scanScenes cfg sid d (Suc i) = Inr a" by simp
    with "1.IH" True have "scanScenes cfg sid' d (Suc i) = Inr (a\<lparr>cb_sceneID := sid'\<rparr>)"
      by blast
    with s' show ?thesis by simp
  next
    case False
    have "scanScenes cfg sid d i = Inr a" by (rule "1.prems")
    with False show ?thesis
      by (subst scanScenes.simps, subst (asm) scanScenes.simps) (auto split: if_splits)
  qed
qed

lemma observesReady_any_sid:
  assumes "observesReady cfg r"
  shows "\<exists>a. getSceneStatus_response cfg sid r = Inr a \<and> \<not> truthy (cb_err a)
           \<and> cb_status a = Str ''READY''"
proof -
  from assms obtain a where a: "getSceneStatus_response cfg Null r = Inr a"
    and e: "\<not> truthy (cb_err a)" and s: "cb_status a = Str ''READY''"
    by (auto simp: observesReady_def split: sum.splits)
  from a s have ok: "\<not> (truthy (resp_err r) \<or> statusCode r \<noteq> 200)"
    by (auto simp: getSceneStatus_response_def split: if_splits)
  with a have "scanScenes cfg Null (body r) 0 = Inr a"
    by (simp add: getSceneStatus_response_def)
  from scanScenes_sid [OF this, of sid] ok
  have "getSceneStatus_response cfg sid r = Inr (a\<lparr>cb_sceneID := sid\<rparr>)"
    by (simp add: getSceneStatus_response_def)
  with e s show ?thesis by simp
qed

lemma runCallback_ready:
  "\<not> truthy (cb_err a) \<Longrightarrow> cb_status a = Str ''READY'' \<Longrightarrow>
   \<exists>info. runCallback cfg cb a latestImage = (cb_mapID a, [ConsoleInfo info])"
  by (cases cb) (simp_all add: statusCallback_def searchStatusCallback_def handleSceneStatus_def)

lemma pollChain_ready_head:
  assumes "observesReady cfg r"
  shows "\<exists>m info. pollChain cfg cb sid (r # rs) latestImage =
           Inr (m, getSceneStatus cfg sid @ [ConsoleInfo info])"
proof -
  from observesReady_any_sid [OF assms, of sid] obtain a
    where a: "getSceneStatus_response cfg sid r = Inr a"
      and e: "\<not> truthy (cb_err a)" and s: "cb_status a = Str ''READY''"
    by blast
  from runCallback_ready [OF e s, of cfg cb latestImage] obtain info
    where "runCallback cfg cb a latestImage = (cb_mapID a, [ConsoleInfo info])" by blast
  with a show ?thesis by simp
qed

lemma pollChain_ready_head_eq:
  assumes "observesReady cfg r"
  shows "pollChain cfg cb sid (r # rs) latestImage = pollChain cfg cb sid [r] latestImage"
proof -
  from observesReady_any_sid [OF assms, of sid] obtain a
    where a: "getSceneStatus_response cfg sid r = Inr a"
      and e: "\<not> truthy (cb_err a)" and s: "cb_status a = Str ''READY''"
    by blast
  from runCallback_ready [OF e s, of cfg cb latestImage] obtain info
    where "runCallback cfg cb a latestImage = (cb_mapID a, [ConsoleInfo info])" by blast
  with a show ?thesis by simp
qed

lemma pollChain_ready_prefix:
  assumes "observesReady cfg r"
  shows "pollChain cfg cb sid (pre @ r # rs) latestImage =
         pollChain cfg cb sid (pre @ [r]) latestImage"
proof (induction pre arbitrary: cb sid latestImage)
  case Nil
  show ?case using pollChain_ready_head_eq [OF assms] by simp
next
  case (Cons p pre)
  show ?case
    by (simp add: Cons.IH split: sum.split prod.split list.split)
qed

text \<open>
  Claim C5. Handling \<open>REQUESTED\<close> arms exactly one timer, for the handled scene identifier
  after \<^verbatim>\<open>recheckInterval\<close>, and so does handling \<open>NOT_YET_REQUESTED\<close>; handling
  \<open>READY\<close> arms none. A polling chain that observes \<open>READY\<close> on an answer \<open>r\<close> ends
  there: whatever the provider would have answered afterwards (\<open>rs\<close>) is never asked for,
  and a chain that starts with such an answer consists of the one request and the one console
  line.
\<close>

theorem recheck_scheduling:
  "armedTimers (snd (handleSceneStatus cfg sid (Str ''REQUESTED'') mapID latestImage)) =
     [(sid, recheckInterval cfg)]
   \<and> armedTimers (snd (handleSceneStatus cfg sid (Str ''NOT_YET_REQUESTED'') mapID latestImage)) =
     [(sid, recheckInterval cfg)]
   \<and> armedTimers (snd (handleSceneStatus cfg sid (Str ''READY'') mapID latestImage)) = []
   \<and> (observesReady cfg r \<longrightarrow>
        pollChain cfg cb sid (pre @ r # rs) latestImage =
          pollChain cfg cb sid (pre @ [r]) latestImage
        \<and> (\<exists>m info. pollChain cfg cb sid (r # rs) latestImage =
              Inr (m, getSceneStatus cfg sid @ [ConsoleInfo info])))"
proof (intro conjI impI)
  show "armedTimers (snd (handleSceneStatus cfg sid (Str ''REQUESTED'') mapID latestImage)) =
     [(sid, recheckInterval cfg)]"
    by (simp add: handleSceneStatus_def)
  show "armedTimers (snd (handleSceneStatus cfg sid (Str ''NOT_YET_REQUESTED'') mapID latestImage)) =
     [(sid, recheckInterval cfg)]"
    by (simp add: handleSceneStatus_def publishScene_def)
  show "armedTimers (snd (handleSceneStatus cfg sid (Str ''READY'') mapID latestImage)) = []"
    by (simp add: handleSceneStatus_def)
next
  assume "observesReady cfg r"
  then show "pollChain cfg cb sid (pre @ r # rs) latestImage =
          pollChain cfg cb sid (pre @ [r]) latestImage"
    by (rule pollChain_ready_prefix)
next
  assume "observesReady cfg r"
  then show "\<exists>m info. pollChain cfg cb sid (r # rs) latestImage =
              Inr (m, getSceneStatus cfg sid @ [ConsoleInfo info])"
    by (rule pollChain_ready_head)
qed

theorem recheck_scheduling_witness:
  "observesReady exampleConfig
     (okResponse (listing [\<lparr>code = ''trueColor'', ready = True, map_id = Str ''abc123''\<rparr>]))
   \<and> pollChain exampleConfig StatusCallback (Str ''LC8'')
        ([okResponse (listing [\<lparr>code = ''trueColor'', ready = False, map_id = Null\<rparr>])] @
         okResponse (listing [\<lparr>code = ''trueColor'', ready = True, map_id = Str ''abc123''\<rparr>]) #
         [okResponse (listing [])]) Undefined
      = pollChain exampleConfig StatusCallback (Str ''LC8'')
        ([okResponse (listing [\<lparr>code = ''trueColor'', ready = False, map_id = Null\<rparr>])] @
         [okResponse (listing [\<lparr>code = ''trueColor'', ready = True, map_id = Str ''abc123''\<rparr>])])
        Undefined"
  using recheck_scheduling [of exampleConfig "Str ''LC8''" Null Undefined
      "okResponse (listing [\<lparr>code = ''trueColor'', ready = True, map_id = Str ''abc123''\<rparr>])"
      StatusCallback
      "[okResponse (listing [\<lparr>code = ''trueColor'', ready = False, map_id = Null\<rparr>])]"
      "[okResponse (listing [])]"]
  by (simp add: observesReady_def getSceneStatus_response_def okResponse_def listing_def
      exampleConfig_def)

text \<open>
  Claim C7. A status check that finds the scene not yet requested posts the publish form
  for that scene and the configured method and arms the re-check; when the re-check is
  answered \<open>READY\<close> with the reference \<open>m\<close>, the chain ends with \<^verbatim>\<open>latestImage\<close> equal to
  \<open>m\<close>, whatever it held before.
\<close>

theorem publish_then_ready_round_trip:
  assumes "getSceneStatus_response cfg sid r1 = Inr (entryStatus sid None)"
    and "getSceneStatus_response cfg sid r2 =
           Inr \<lparr>cb_err = Null, cb_status = Str ''READY'', cb_mapID = m, cb_sceneID = sid\<rparr>"
    and "cb = StatusCallback \<or> cb = SearchCallback sid"
  shows "pollChain cfg cb sid (r1 # r2 # rs) latestImage =
     Inr (m,
       getSceneStatus cfg sid @
       [ConsoleInfo (''Just checked on the status of '' @ toString sid @
                     '' and it is NOT_YET_REQUESTED.'')] @
       snd (publishScene cfg sid) @
       [SetTimeout sid (recheckInterval cfg)] @
       getSceneStatus cfg sid @
       [ConsoleInfo (''Just checked on the status of '' @ toString sid @
                     '' and it is READY.'')])"
  using assms
  by (auto simp add: entryStatus_def statusCallback_def searchStatusCallback_def
      handleSceneStatus_def publishScene_def)

theorem publish_then_ready_round_trip_witness:
  "getSceneStatus_response exampleConfig (Str ''LC80100102015050LGN00'')
     (okResponse (listing [\<lparr>code = ''ndvi'', ready = True, map_id = Str ''x1''\<rparr>]))
     = Inr (entryStatus (Str ''LC80100102015050LGN00'') None)
   \<and> getSceneStatus_response exampleConfig (Str ''LC80100102015050LGN00'')
     (okResponse (listing [\<lparr>code = ''ndvi'', ready = True, map_id = Str ''x1''\<rparr>,
                           \<lparr>code = ''trueColor'', ready = True, map_id = Str ''abc123''\<rparr>]))
     = Inr \<lparr>cb_err = Null, cb_status = Str ''READY'', cb_mapID = Str ''abc123'',
            cb_sceneID = Str ''LC80100102015050LGN00''\<rparr>
   \<and> pollChain exampleConfig StatusCallback (Str ''LC80100102015050LGN00'')
       [okResponse (listing [\<lparr>code = ''ndvi'', ready = True, map_id = Str ''x1''\<rparr>]),
        okResponse (listing [\<lparr>code = ''ndvi'', ready = True, map_id = Str ''x1''\<rparr>,
                             \<lparr>code = ''trueColor'', ready = True, map_id = Str ''abc123''\<rparr>])]
       Undefined
     = Inr (Str ''abc123'',
        [HttpGet ''https://api.astrodigital.com/v1/scenes?sceneID=LC80100102015050LGN00'',
         ConsoleInfo
           ''Just checked on the status of LC80100102015050LGN00 and it is NOT_YET_REQUESTED.'',
         HttpPost ''https://api.astrodigital.com/v1/publish''
           \<lparr>fd_satellite = ''l8'', fd_sceneID = Str ''LC80100102015050LGN00'',
            fd_email = ''user@example.com'', fd_process = ''trueColor''\<rparr>,
         SetTimeout (Str ''LC80100102015050LGN00'') 600000,
         HttpGet ''https://api.astrodigital.com/v1/scenes?sceneID=LC80100102015050LGN00'',
         ConsoleInfo ''Just checked on the status of LC80100102015050LGN00 and it is READY.''])"
proof -
  have h1: "getSceneStatus_response exampleConfig (Str ''LC80100102015050LGN00'')
     (okResponse (listing [\<lparr>code = ''ndvi'', ready = True, map_id = Str ''x1''\<rparr>]))
     = Inr (entryStatus (Str ''LC80100102015050LGN00'') None)"
    by (simp add: getSceneStatus_response_def okResponse_def listing_def exampleConfig_def
        entryStatus_def)
  have h2: "getSceneStatus_response exampleConfig (Str ''LC80100102015050LGN00'')
     (okResponse (listing [\<lparr>code = ''ndvi'', ready = True, map_id = Str ''x1''\<rparr>,
                           \<lparr>code = ''trueColor'', ready = True, map_id = Str ''abc123''\<rparr>]))
     = Inr \<lparr>cb_err = Null, cb_status = Str ''READY'', cb_mapID = Str ''abc123'',
            cb_sceneID = Str ''LC80100102015050LGN00''\<rparr>"
    by (simp add: getSceneStatus_response_def okResponse_def listing_def exampleConfig_def)
  have h3: "StatusCallback = StatusCallback \<or>
            StatusCallback = SearchCallback (Str ''LC80100102015050LGN00'')"
    by simp
  have "pollChain exampleConfig StatusCallback (Str ''LC80100102015050LGN00'')
       [okResponse (listing [\<lparr>code = ''ndvi'', ready = True, map_id = Str ''x1''\<rparr>]),
        okResponse (listing [\<lparr>code = ''ndvi'', ready = True, map_id = Str ''x1''\<rparr>,
                             \<lparr>code = ''trueColor'', ready = True, map_id = Str ''abc123''\<rparr>])]
       Undefined
     = Inr (Str ''abc123'',
        [HttpGet ''https://api.astrodigital.com/v1/scenes?sceneID=LC80100102015050LGN00'',
         ConsoleInfo
           ''Just checked on the status of LC80100102015050LGN00 and it is NOT_YET_REQUESTED.'',
         HttpPost ''https://api.astrodigital.com/v1/publish''
           \<lparr>fd_satellite = ''l8'', fd_sceneID = Str ''LC80100102015050LGN00'',
            fd_email = ''user@example.com'', fd_process = ''trueColor''\<rparr>,
         SetTimeout (Str ''LC80100102015050LGN00'') 600000,
         HttpGet ''https://api.astrodigital.com/v1/scenes?sceneID=LC80100102015050LGN00'',
         ConsoleInfo ''Just checked on the status of LC80100102015050LGN00 and it is READY.''])"
    using publish_then_ready_round_trip [OF h1 h2 h3, of "[]" Undefined]
    by (simp add: getSceneStatus_def publishScene_def) (simp add: exampleConfig_def)
  with h1 h2 show ?thesis by simp
qed

text \<open>
  Scenario A of the specification, from the search on: the scene identifier is trimmed, the
  first check finds no entry of the method, the scene is published, and the re-check finds
  it ready.
\<close>

lemma scenario_A:
  "searchCycle exampleConfig
     (okResponse \<lparr>search_results = [\<lparr>sceneID = ''LC80100102015050LGN00 ''\<rparr>]\<rparr>)
     [okResponse (listing [\<lparr>code = ''ndvi'', ready = True, map_id = Str ''x1''\<rparr>]),
      okResponse (listing [\<lparr>code = ''ndvi'', ready = True, map_id = Str ''x1''\<rparr>,
                           \<lparr>code = ''trueColor'', ready = True, map_id = Str ''abc123''\<rparr>])]
     Undefined
   = Inr (Str ''abc123'',
        [HttpGet (''https://api.astrodigital.com/v1'' @ searchString exampleConfig),
         HttpGet ''https://api.astrodigital.com/v1/scenes?sceneID=LC80100102015050LGN00'',
         ConsoleInfo
           ''Just checked on the status of LC80100102015050LGN00 and it is NOT_YET_REQUESTED.'',
         HttpPost ''https://api.astrodigital.com/v1/publish''
           \<lparr>fd_satellite = ''l8'', fd_sceneID = Str ''LC80100102015050LGN00'',
            fd_email = ''user@example.com'', fd_process = ''trueColor''\<rparr>,
         SetTimeout (Str ''LC80100102015050LGN00'') 600000,
         HttpGet ''https://api.astrodigital.com/v1/scenes?sceneID=LC80100102015050LGN00'',
         ConsoleInfo ''Just checked on the status of LC80100102015050LGN00 and it is READY.''])"
proof -
  have t: "trim ''LC80100102015050LGN00 '' = ''LC80100102015050LGN00''"
    by (simp add: trim_def isWhiteSpace_def)
  have s: "runSearchRequest_response
     (okResponse \<lparr>search_results = [\<lparr>sceneID = ''LC80100102015050LGN00 ''\<rparr>]\<rparr>)
     = Inr (Null, Str ''LC80100102015050LGN00'')"
    by (simp add: runSearchRequest_response_def okResponse_def t)
  show ?thesis
    unfolding searchCycle_def s
    by (simp add: getSceneStatus_response_def okResponse_def listing_def
        searchStatusCallback_def statusCallback_def handleSceneStatus_def publishScene_def
        getSceneStatus_def runSearchRequest_def)
       (simp add: exampleConfig_def)
qed

end
